theory Spec2Isabelle
  imports Complex_Main
begin

section \<open>The symbolic expressions of the derivations notebook\<close>

text \<open>
  The notebook \<^verbatim>\<open>notebooks/05_symbolic_derivations.ipynb\<close> builds its formulas as exact
  symbolic expressions over real, positive symbols. A symbol becomes a real parameter
  of the definition that embeds the expression, and an expression becomes the function
  of the symbols it mentions.

  \<^verbatim>\<open>
  t0, v, c = sp.symbols('t_0 v c', real=True, positive=True)
  gamma = 1 / sp.sqrt(1 - (v**2 / c**2))
  t = gamma * t0
  \<close>

  The square root of the real numbers in HOL agrees with the principal root of the
  notebook's library on non-negative arguments only, so \<open>gamma\<close> stands for the source
  expression wherever \<open>v\<^sup>2 / c\<^sup>2 \<le> 1\<close>; beyond that the expression is complex-valued
  and \<open>gamma_cx\<close> below embeds it.
\<close>

definition gamma :: "real \<Rightarrow> real \<Rightarrow> real" where
  "gamma v c = 1 / sqrt (1 - (v\<^sup>2 / c\<^sup>2))"

definition t :: "real \<Rightarrow> real \<Rightarrow> real \<Rightarrow> real" where
  "t t0 v c = gamma v c * t0"

text \<open>
  \<^verbatim>\<open>
  G, M, r = sp.symbols('G M r', real=True, positive=True)
  t_gravity = t0 * sp.sqrt(1 - (2 * G * M) / (r * c**2))
  \<close>
\<close>

definition t_gravity :: "real \<Rightarrow> real \<Rightarrow> real \<Rightarrow> real \<Rightarrow> real \<Rightarrow> real" where
  "t_gravity t0 G M r c = t0 * sqrt (1 - (2 * G * M) / (r * c\<^sup>2))"

text \<open>
  \<^verbatim>\<open>
  tau = sp.Symbol('tau', real=True, positive=True)
  t_decay = gamma * tau
  \<close>
\<close>

definition t_decay :: "real \<Rightarrow> real \<Rightarrow> real \<Rightarrow> real" where
  "t_decay tau v c = gamma v c * tau"

text \<open>
  \<^verbatim>\<open>
  r_s = 2 * G * M / c**2
  \<close>
\<close>

definition r_s :: "real \<Rightarrow> real \<Rightarrow> real \<Rightarrow> real" where
  "r_s G M c = 2 * G * M / c\<^sup>2"

text \<open>
  The same expression \<open>gamma\<close> with the principal complex square root, which is what the
  symbolic library computes with once \<open>1 - v\<^sup>2 / c\<^sup>2\<close> is negative.
\<close>

definition gamma_cx :: "real \<Rightarrow> real \<Rightarrow> complex" where
  "gamma_cx v c = 1 / csqrt (complex_of_real (1 - (v\<^sup>2 / c\<^sup>2)))"

section \<open>The data-generation pipeline described by the specification\<close>

text \<open>
  The README places the numeric pipeline in \<^verbatim>\<open>scripts/\<close> and \<^verbatim>\<open>src/dilation/\<close>; neither is
  among the sources, which hold the formulas only as the symbolic expressions above.
  The error kinds, the normalised gravitational formula and the sweep generator of this
  section therefore follow the specification.
\<close>

datatype error = InvalidRangeError | DomainError | IOError

text \<open>
  Modelled from the spec: the normalised gravitational formula of section 4.2,
  \<^verbatim>\<open>gravitational_dilation(radius_ratio) = sqrt(1 - 1/radius_ratio)\<close>, as a plain function
  of the radius ratio, to be compared with the notebook's \<open>t_gravity\<close>.
\<close>

definition gravitational_dilation_spec :: "real \<Rightarrow> real" where
  "gravitational_dilation_spec radius_ratio = sqrt (1 - 1 / radius_ratio)"

text \<open>
  Modelled from the spec: the Parameter Sweep Generator of section 4.1, which is missing
  from the sources. Given \<open>(start, stop, count)\<close> it fails with \<open>InvalidRangeError\<close>
  when \<open>count < 1\<close> or \<open>start \<ge> stop\<close>, and otherwise yields \<open>count\<close> evenly spaced
  reals in \<open>[start, stop)\<close>: the values \<open>start + i * (stop - start) / count\<close> for
  \<open>i = 0, \<dots>, count - 1\<close>. The lazy, restartable sequence is the list of its values.
\<close>

definition parameter_sweep :: "real \<Rightarrow> real \<Rightarrow> int \<Rightarrow> error + real list" where
  "parameter_sweep start stop count =
     (if count < 1 \<or> start \<ge> stop then Inl InvalidRangeError
      else Inr (map (\<lambda>i. start + real i * ((stop - start) / real_of_int count))
                    [0 ..< nat count]))"

section \<open>Evaluating the expressions\<close>

text \<open>
  Substituting real numbers for the symbols of an expression evaluates it. Neither the
  notebook nor the library's arithmetic checks the numbers or raises on them: a negative
  radicand has its principal complex root, and the reciprocal of zero is the library's
  complex infinity. The value of an expression is therefore a complex number or that
  infinity, and an evaluation has no failing branch: its result is always a value.
  The symbols other than the one a domain restricts keep their declared sign
  (\<open>c\<close>, \<open>G\<close>, \<open>M\<close>, \<open>t0\<close> and \<open>tau\<close> positive); the definitions give the value
  the library computes under that declaration.
\<close>

datatype sym_value = Finite complex | ComplexInfinity

definition gamma_eval :: "real \<Rightarrow> real \<Rightarrow> error + sym_value" where
  "gamma_eval v c =
     (if 1 - (v\<^sup>2 / c\<^sup>2) = 0 then Inr ComplexInfinity
      else Inr (Finite (1 / csqrt (complex_of_real (1 - (v\<^sup>2 / c\<^sup>2))))))"

definition t_gravity_eval :: "real \<Rightarrow> real \<Rightarrow> real \<Rightarrow> real \<Rightarrow> real \<Rightarrow> error + sym_value" where
  "t_gravity_eval t0 G M r c =
     (if r * c\<^sup>2 = 0 then Inr ComplexInfinity
      else Inr (Finite (complex_of_real t0
                         * csqrt (complex_of_real (1 - (2 * G * M) / (r * c\<^sup>2))))))"

definition t_decay_eval :: "real \<Rightarrow> real \<Rightarrow> real \<Rightarrow> error + sym_value" where
  "t_decay_eval tau v c =
     (case gamma_eval v c of
        Inl e \<Rightarrow> Inl e
      | Inr ComplexInfinity \<Rightarrow> Inr ComplexInfinity
      | Inr (Finite g) \<Rightarrow> Inr (Finite (g * complex_of_real tau)))"

section \<open>The Lorentz factor\<close>

text \<open>
  The velocity fraction of the specification is \<open>v / c\<close>; at \<open>v = v_fraction * c\<close> the
  notebook's \<open>gamma\<close> depends on the fraction alone.
\<close>

lemma gamma_norm: "0 < c \<Longrightarrow> gamma (vf * c) c = 1 / sqrt (1 - vf\<^sup>2)"
  by (simp add: gamma_def power_mult_distrib)

lemma gamma_zero: "gamma 0 c = 1"
  by (simp add: gamma_def)

lemma gamma_ge_1:
  assumes "0 < c" "0 \<le> vf" "vf < 1"
  shows "1 \<le> gamma (vf * c) c"
proof -
  have "vf\<^sup>2 < 1" using assms by (simp add: abs_square_less_1)
  then have "0 < sqrt (1 - vf\<^sup>2)" "sqrt (1 - vf\<^sup>2) \<le> 1" by simp_all
  then show ?thesis using assms by (simp add: gamma_norm)
qed

lemma gamma_strict_mono:
  assumes "0 < c" "0 \<le> u" "u < w" "w < 1"
  shows "gamma (u * c) c < gamma (w * c) c"
proof -
  have uw: "u\<^sup>2 < w\<^sup>2" by (rule power_strict_mono) (use assms in simp_all)
  have w1: "w\<^sup>2 < 1" using assms by (simp add: abs_square_less_1)
  have "sqrt (1 - w\<^sup>2) < sqrt (1 - u\<^sup>2)" using uw by simp
  moreover have "0 < sqrt (1 - w\<^sup>2)" using w1 by simp
  ultimately show ?thesis using assms by (simp add: gamma_norm frac_less2)
qed

text \<open>
  C1. For every velocity fraction in \<open>[0,1)\<close> the Lorentz factor is
  \<open>1 / sqrt (1 - v_fraction\<^sup>2)\<close>, is at least 1, is strictly increasing in the velocity
  fraction, and equals 1 at velocity 0. Here the Lorentz factor at a fraction \<open>vf\<close> is
  the notebook's \<open>gamma\<close> at \<open>v = vf * c\<close>, for any speed of light \<open>c > 0\<close>.
\<close>

theorem lorentz_factor_properties:
  assumes "0 < c" "0 \<le> vf" "vf < 1"
  shows "gamma (vf * c) c = 1 / sqrt (1 - vf\<^sup>2)
    \<and> 1 \<le> gamma (vf * c) c
    \<and> (\<forall>w. vf < w \<and> w < 1 \<longrightarrow> gamma (vf * c) c < gamma (w * c) c)
    \<and> gamma (0 * c) c = 1"
  using assms gamma_norm gamma_ge_1 gamma_strict_mono gamma_zero by simp

theorem lorentz_factor_properties_witness:
  "(0::real) < 2 \<and> (0::real) \<le> 3/5 \<and> (3/5::real) < 1
   \<and> gamma (3/5 * 2) 2 = 5/4 \<and> 1 \<le> gamma (3/5 * 2) 2
   \<and> gamma (3/5 * 2) 2 < gamma (4/5 * 2) 2 \<and> gamma (0 * 2) 2 = 1"
proof -
  have h: "(0::real) < 2" "(0::real) \<le> 3/5" "(3/5::real) < 1" by simp_all
  have e: "sqrt (1 - (3/5 :: real)\<^sup>2) = 4/5"
    by (rule real_sqrt_unique) (simp_all add: power2_eq_square)
  have g: "1 / sqrt (1 - (3/5 :: real)\<^sup>2) = 5/4"
    unfolding e by simp
  note T = lorentz_factor_properties [OF h, unfolded g]
  have m: "(3/5::real) < 4/5 \<and> (4/5::real) < 1" by simp
  from T have "\<forall>w. 3/5 < w \<and> w < 1 \<longrightarrow> gamma (3/5 * 2) 2 < gamma (w * 2) 2" by blast
  with m have "gamma (3/5 * 2) 2 < gamma (4/5 * 2) 2" by blast
  with T h show ?thesis by blast
qed

lemma gamma_099_bounds:
  "7.0888 < 1 / sqrt (1 - (0.99::real)\<^sup>2) \<and> 1 / sqrt (1 - (0.99::real)\<^sup>2) < 7.0889"
proof -
  have e: "1 - (0.99::real)\<^sup>2 = 199 / 10000" by (simp add: power2_eq_square)
  have lo: "sqrt (199 / 10000) < 1 / 7.0888"
    by (rule real_less_lsqrt) (simp_all add: power2_eq_square)
  have hi: "1 / 7.0889 < sqrt (199 / 10000)"
    by (rule real_less_rsqrt) (simp add: power2_eq_square)
  have pos: "0 < sqrt (199 / 10000 :: real)" by simp
  have "7.0888 < 1 / sqrt (199 / 10000 :: real)"
    using lo pos by (simp add: field_simps)
  moreover have "1 / sqrt (199 / 10000 :: real) < 7.0889"
    using hi pos by (simp add: field_simps)
  ultimately show ?thesis unfolding e by blast
qed

text \<open>
  C5. The Lorentz factor at 99 percent of the speed of light, \<open>1 / sqrt (1 - 0.99\<^sup>2)\<close>,
  lies strictly between 7.0888 and 7.0889: this is the notebook's \<open>gamma\<close> at
  \<open>v = 0.99 * c\<close>.
\<close>

theorem lorentz_factor_at_099:
  assumes "0 < c"
  shows "7.0888 < gamma (0.99 * c) c \<and> gamma (0.99 * c) c < 7.0889"
  using gamma_099_bounds unfolding gamma_norm [OF assms] .

theorem lorentz_factor_at_099_witness:
  "(0::real) < 1 \<and> 7.0888 < gamma (0.99 * 1) 1 \<and> gamma (0.99 * 1) 1 < 7.0889"
proof -
  have h: "(0::real) < 1" by simp
  from lorentz_factor_at_099 [OF h] h show ?thesis by blast
qed

subsection \<open>The limit at the speed of light\<close>

text \<open>
  \<^verbatim>\<open>
  # Limit of Lorentz factor as v -> c
  limit_lorentz = sp.limit(gamma, v, c)
  \<close>
  The library's \<^verbatim>\<open>limit\<close> takes the limit from the right unless told otherwise, and the
  recorded output of the cell is the limit for \<open>v \<rightarrow> c\<^sup>+\<close>. Right of \<open>c\<close> the radicand
  is negative and the expression is the complex-valued \<open>gamma_cx\<close>.
\<close>

lemma ratio_less_1: assumes "0 < (c::real)" "0 \<le> v" "v < c" shows "v\<^sup>2 / c\<^sup>2 < 1"
proof -
  have "v\<^sup>2 < c\<^sup>2" by (rule power_strict_mono) (use assms in simp_all)
  then show ?thesis using assms by simp
qed

lemma ratio_gr_1: assumes "0 < (c::real)" "c < v" shows "1 < v\<^sup>2 / c\<^sup>2"
proof -
  have "c\<^sup>2 < v\<^sup>2" by (rule power_strict_mono) (use assms in simp_all)
  then show ?thesis using assms by simp
qed

lemma gamma_cx_real:
  assumes "0 < c" "0 \<le> v" "v < c"
  shows "gamma_cx v c = complex_of_real (gamma v c)"
proof -
  have "0 \<le> 1 - v\<^sup>2 / c\<^sup>2" using ratio_less_1 [OF assms] by simp
  then have "csqrt (complex_of_real (1 - v\<^sup>2 / c\<^sup>2)) = complex_of_real (sqrt (1 - v\<^sup>2 / c\<^sup>2))"
    by (simp only: of_real_sqrt)
  then show ?thesis by (simp add: gamma_cx_def gamma_def)
qed

lemma inverse_imaginary:
  "0 < s \<Longrightarrow> 1 / (\<i> * complex_of_real s) = Complex 0 (- (1 / s))"
  by (simp add: complex_eq_iff Re_divide Im_divide power2_eq_square)

lemma gamma_cx_beyond:
  assumes "0 < c" "c < v"
  shows "gamma_cx v c = Complex 0 (- (1 / sqrt (v\<^sup>2 / c\<^sup>2 - 1)))"
proof -
  let ?s = "sqrt (v\<^sup>2 / c\<^sup>2 - 1)"
  have neg: "1 - v\<^sup>2 / c\<^sup>2 \<le> 0" using ratio_gr_1 [OF assms] by simp
  have pos: "0 < ?s" using ratio_gr_1 [OF assms] by simp
  have "csqrt (complex_of_real (1 - v\<^sup>2 / c\<^sup>2)) = \<i> * complex_of_real (sqrt \<bar>1 - v\<^sup>2 / c\<^sup>2\<bar>)"
    using neg by (subst csqrt_of_real_nonpos) simp_all
  also have "\<bar>1 - v\<^sup>2 / c\<^sup>2\<bar> = v\<^sup>2 / c\<^sup>2 - 1" using neg by simp
  finally have "gamma_cx v c = 1 / (\<i> * complex_of_real ?s)"
    by (simp add: gamma_cx_def)
  also have "\<dots> = Complex 0 (- (1 / ?s))"
    using pos by (rule inverse_imaginary)
  finally show ?thesis .
qed

lemma gamma_at_left:
  assumes "0 < c"
  shows "LIM v (at_left c). gamma v c :> at_top"
proof -
  have "((\<lambda>v. sqrt (1 - v\<^sup>2 / c\<^sup>2)) \<longlongrightarrow> sqrt (1 - c\<^sup>2 / c\<^sup>2)) (at_left c)"
    using assms by (intro tendsto_intros) simp_all
  then have lim: "((\<lambda>v. sqrt (1 - v\<^sup>2 / c\<^sup>2)) \<longlongrightarrow> 0) (at_left c)"
    using assms by simp
  have "\<forall>\<^sub>F v in at_left c. v \<in> {0<..<c}"
    using assms by (rule eventually_at_left_real)
  then have ev: "\<forall>\<^sub>F v in at_left c. 0 < sqrt (1 - v\<^sup>2 / c\<^sup>2)"
  proof (rule eventually_mono)
    fix v assume "v \<in> {0<..<c}"
    then have "v\<^sup>2 / c\<^sup>2 < 1" using assms ratio_less_1 [of c v] by simp
    then show "0 < sqrt (1 - v\<^sup>2 / c\<^sup>2)" by simp
  qed
  have "LIM v (at_left c). inverse (sqrt (1 - v\<^sup>2 / c\<^sup>2)) :> at_top"
    using lim ev by (rule filterlim_inverse_at_top)
  then show ?thesis by (simp add: gamma_def inverse_eq_divide)
qed

lemma Im_gamma_cx_at_right:
  assumes "0 < c"
  shows "LIM v (at_right c). Im (gamma_cx v c) :> at_bot"
proof -
  have "((\<lambda>v. sqrt (v\<^sup>2 / c\<^sup>2 - 1)) \<longlongrightarrow> sqrt (c\<^sup>2 / c\<^sup>2 - 1)) (at_right c)"
    using assms by (intro tendsto_intros) simp_all
  then have lim: "((\<lambda>v. sqrt (v\<^sup>2 / c\<^sup>2 - 1)) \<longlongrightarrow> 0) (at_right c)"
    using assms by simp
  have gt: "\<forall>\<^sub>F v in at_right c. c < v"
    by (rule eventually_at_right_less)
  from gt have ev: "\<forall>\<^sub>F v in at_right c. 0 < sqrt (v\<^sup>2 / c\<^sup>2 - 1)"
  proof (rule eventually_mono)
    fix v assume "c < v"
    then show "0 < sqrt (v\<^sup>2 / c\<^sup>2 - 1)" using ratio_gr_1 [OF assms] by simp
  qed
  have "LIM v (at_right c). inverse (sqrt (v\<^sup>2 / c\<^sup>2 - 1)) :> at_top"
    using lim ev by (rule filterlim_inverse_at_top)
  then have "LIM v (at_right c). - inverse (sqrt (v\<^sup>2 / c\<^sup>2 - 1)) :> at_bot"
    by (simp only: filterlim_uminus_at_top)
  moreover from gt have "\<forall>\<^sub>F v in at_right c. Im (gamma_cx v c) = - inverse (sqrt (v\<^sup>2 / c\<^sup>2 - 1))"
  proof (rule eventually_mono)
    fix v assume "c < v"
    then show "Im (gamma_cx v c) = - inverse (sqrt (v\<^sup>2 / c\<^sup>2 - 1))"
      using gamma_cx_beyond [OF assms] by (simp add: inverse_eq_divide)
  qed
  ultimately show ?thesis
    by (simp add: filterlim_cong [OF refl refl])
qed

lemma gamma_unbounded:
  assumes "0 < c"
  shows "\<exists>vf. 0 \<le> vf \<and> vf < 1 \<and> M < gamma (vf * c) c"
proof -
  define K where "K = max M 1"
  define vf where "vf = sqrt (1 - 1 / (K + 1)\<^sup>2)"
  have K: "1 \<le> K" "M \<le> K" by (simp_all add: K_def)
  then have k2: "1 < (K + 1)\<^sup>2" by (intro one_less_power) simp_all
  then have inv: "0 < 1 / (K + 1)\<^sup>2" "1 / (K + 1)\<^sup>2 < 1" using K by simp_all
  then have vf: "0 \<le> vf" "vf < 1" by (simp_all add: vf_def)
  have "vf\<^sup>2 = 1 - 1 / (K + 1)\<^sup>2" using inv by (simp add: vf_def)
  then have "1 - vf\<^sup>2 = 1 / (K + 1)\<^sup>2" by simp
  then have "sqrt (1 - vf\<^sup>2) = 1 / (K + 1)" using K by (simp add: real_sqrt_divide)
  then have "gamma (vf * c) c = K + 1" using assms by (simp add: gamma_def power_mult_distrib)
  then show ?thesis using vf K by (intro exI [of _ vf]) simp
qed

text \<open>
  C4. The Lorentz factor diverges to positive infinity as the velocity tends to the speed
  of light from below: it exceeds every bound at some velocity fraction below 1, and
  \<open>gamma\<close> tends to infinity at the left of \<open>c\<close>. The limit the notebook computes is
  the one from the right, where \<open>gamma\<close> is purely imaginary,
  \<open>- \<i> / sqrt (v\<^sup>2 / c\<^sup>2 - 1)\<close>, and its imaginary part tends to minus infinity: the
  computed value is \<open>- \<infinity> \<i>\<close> and not positive infinity.
\<close>

theorem limit_lorentz_one_sided:
  assumes "0 < c"
  shows "(\<forall>M. \<exists>vf. 0 \<le> vf \<and> vf < 1 \<and> M < gamma (vf * c) c)
    \<and> (LIM v (at_left c). gamma v c :> at_top)
    \<and> (\<forall>v. 0 \<le> v \<and> v < c \<longrightarrow> gamma_cx v c = complex_of_real (gamma v c))
    \<and> (\<forall>v>c. gamma_cx v c = Complex 0 (- (1 / sqrt (v\<^sup>2 / c\<^sup>2 - 1))))
    \<and> (LIM v (at_right c). Im (gamma_cx v c) :> at_bot)"
  using gamma_unbounded [OF assms] gamma_at_left [OF assms] gamma_cx_real [OF assms]
    gamma_cx_beyond [OF assms] Im_gamma_cx_at_right [OF assms]
  by blast

theorem limit_lorentz_one_sided_witness:
  "(0::real) < 1 \<and> (1::real) < 5/4
   \<and> gamma_cx (5/4) 1 = Complex 0 (- (4/3))
   \<and> (LIM v (at_right 1). Im (gamma_cx v 1) :> at_bot)
   \<and> (LIM v (at_left 1). gamma v 1 :> at_top)"
proof -
  have h: "(0::real) < 1" by simp
  have m: "(1::real) < 5/4" by simp
  have e: "sqrt ((5/4 :: real)\<^sup>2 / 1\<^sup>2 - 1) = 3/4"
    by (rule real_sqrt_unique) (simp_all add: power2_eq_square)
  have g: "- (1 / (3/4 :: real)) = - (4/3)" by simp
  note T = limit_lorentz_one_sided [OF h]
  from T m have "gamma_cx (5/4) 1 = Complex 0 (- (1 / sqrt ((5/4)\<^sup>2 / 1\<^sup>2 - 1)))"
    by blast
  then have "gamma_cx (5/4) 1 = Complex 0 (- (4/3))" unfolding e g .
  with T h m show ?thesis by blast
qed

section \<open>Gravitational dilation\<close>

lemma t_gravity_norm:
  assumes "0 < G" "0 < M" "0 < c"
  shows "t_gravity t0 G M (rr * r_s G M c) c = t0 * sqrt (1 - 1 / rr)"
proof -
  have "rr * (2 * G * M / c\<^sup>2) * c\<^sup>2 = rr * (2 * G * M)" using assms by simp
  moreover have "(2 * G * M) / (rr * (2 * G * M)) = 1 / rr" using assms by simp
  ultimately show ?thesis by (simp add: t_gravity_def r_s_def)
qed

lemma sqrt_ratio_pos: "1 < rr \<Longrightarrow> 0 < sqrt (1 - 1 / rr)"
  by simp

lemma sqrt_ratio_less_1: "1 < rr \<Longrightarrow> sqrt (1 - 1 / rr) < 1"
  by simp

lemma sqrt_ratio_mono:
  assumes "1 < a" "a < b"
  shows "sqrt (1 - 1 / a) < sqrt (1 - 1 / b)"
proof -
  have "1 / b < 1 / a" using assms by (simp add: frac_less2)
  then show ?thesis by simp
qed

lemma sqrt_ratio_at_top: "((\<lambda>rr::real. sqrt (1 - 1 / rr)) \<longlongrightarrow> 1) at_top"
proof -
  have "((\<lambda>rr::real. 1 / rr) \<longlongrightarrow> 0) at_top"
    by (rule real_tendsto_divide_at_top [OF tendsto_const filterlim_ident])
  then have "((\<lambda>rr::real. sqrt (1 - 1 / rr)) \<longlongrightarrow> sqrt (1 - 0)) at_top"
    by (intro tendsto_intros)
  then show ?thesis by simp
qed

lemma sqrt_ratio_at_right_1: "((\<lambda>rr::real. sqrt (1 - 1 / rr)) \<longlongrightarrow> 0) (at_right 1)"
proof -
  have "((\<lambda>rr::real. sqrt (1 - 1 / rr)) \<longlongrightarrow> sqrt (1 - 1 / 1)) (at_right 1)"
    by (intro tendsto_intros) simp_all
  then show ?thesis by simp
qed

lemma t_gravity_at_horizon:
  assumes "0 < G" "0 < M" "0 < c"
  shows "((\<lambda>r. t_gravity t0 G M r c) \<longlongrightarrow> 0) (at_right (r_s G M c))"
proof -
  have nz: "r_s G M c * c\<^sup>2 \<noteq> 0" using assms by (simp add: r_s_def)
  have val: "2 * G * M / (r_s G M c * c\<^sup>2) = 1" using assms by (simp add: r_s_def)
  have "((\<lambda>r. t0 * sqrt (1 - (2 * G * M) / (r * c\<^sup>2)))
          \<longlongrightarrow> t0 * sqrt (1 - (2 * G * M) / (r_s G M c * c\<^sup>2))) (at_right (r_s G M c))"
    using nz by (intro tendsto_intros) simp_all
  then show ?thesis unfolding val t_gravity_def by simp
qed

text \<open>
  C2. For every radius ratio above 1 the gravitational dilation factor
  \<open>sqrt (1 - 1 / radius_ratio)\<close> lies in \<open>(0,1]\<close>; it is strictly increasing, tends to 1
  as the radius ratio grows without bound, and tends to 0 as the radius ratio tends to 1
  from above. The factor at a ratio \<open>rr\<close> is the notebook's \<open>t_gravity\<close> with unit proper
  time at \<open>r = rr * r_s\<close>; the last conjunct is the notebook's own limit of \<open>t_gravity\<close>
  as \<open>r\<close> tends to \<open>r_s\<close> from the right.
\<close>

theorem gravitational_dilation_properties:
  assumes "0 < G" "0 < M" "0 < c"
  shows "(\<forall>rr>1. t_gravity 1 G M (rr * r_s G M c) c = sqrt (1 - 1 / rr)
             \<and> 0 < t_gravity 1 G M (rr * r_s G M c) c
             \<and> t_gravity 1 G M (rr * r_s G M c) c \<le> 1)
    \<and> (\<forall>a b. 1 < a \<and> a < b \<longrightarrow>
          t_gravity 1 G M (a * r_s G M c) c < t_gravity 1 G M (b * r_s G M c) c)
    \<and> ((\<lambda>rr. t_gravity 1 G M (rr * r_s G M c) c) \<longlongrightarrow> 1) at_top
    \<and> ((\<lambda>rr. t_gravity 1 G M (rr * r_s G M c) c) \<longlongrightarrow> 0) (at_right 1)
    \<and> ((\<lambda>r. t_gravity t0 G M r c) \<longlongrightarrow> 0) (at_right (r_s G M c))"
proof -
  note n = t_gravity_norm [OF assms, of 1, simplified]
  have "\<forall>rr>1. t_gravity 1 G M (rr * r_s G M c) c = sqrt (1 - 1 / rr)
             \<and> 0 < t_gravity 1 G M (rr * r_s G M c) c
             \<and> t_gravity 1 G M (rr * r_s G M c) c \<le> 1"
    unfolding n using sqrt_ratio_pos sqrt_ratio_less_1 by (simp add: less_imp_le)
  moreover have "\<forall>a b. 1 < a \<and> a < b \<longrightarrow>
          t_gravity 1 G M (a * r_s G M c) c < t_gravity 1 G M (b * r_s G M c) c"
    unfolding n using sqrt_ratio_mono by blast
  moreover have "((\<lambda>rr. t_gravity 1 G M (rr * r_s G M c) c) \<longlongrightarrow> 1) at_top"
    unfolding n by (rule sqrt_ratio_at_top)
  moreover have "((\<lambda>rr. t_gravity 1 G M (rr * r_s G M c) c) \<longlongrightarrow> 0) (at_right 1)"
    unfolding n by (rule sqrt_ratio_at_right_1)
  moreover note t_gravity_at_horizon [OF assms, of t0]
  ultimately show ?thesis by blast
qed

theorem gravitational_dilation_properties_witness:
  "(0::real) < 1 \<and> t_gravity 1 1 1 (4/3 * r_s 1 1 1) 1 = 1/2
   \<and> 0 < t_gravity 1 1 1 (4/3 * r_s 1 1 1) 1 \<and> t_gravity 1 1 1 (4/3 * r_s 1 1 1) 1 \<le> 1
   \<and> t_gravity 1 1 1 (4/3 * r_s 1 1 1) 1 < t_gravity 1 1 1 (2 * r_s 1 1 1) 1"
proof -
  have h: "(0::real) < 1" by simp
  have e: "sqrt (1 - 1 / (4/3 :: real)) = 1/2"
    by (rule real_sqrt_unique) (simp_all add: power2_eq_square)
  note T = gravitational_dilation_properties [OF h h h, of 1]
  have m: "(1::real) < 4/3" "(1::real) < 4/3 \<and> (4/3::real) < 2" by simp_all
  from T m(1) have a: "t_gravity 1 1 1 (4/3 * r_s 1 1 1) 1 = sqrt (1 - 1 / (4/3))
             \<and> 0 < t_gravity 1 1 1 (4/3 * r_s 1 1 1) 1
             \<and> t_gravity 1 1 1 (4/3 * r_s 1 1 1) 1 \<le> 1" by blast
  from T m(2) have b: "t_gravity 1 1 1 (4/3 * r_s 1 1 1) 1 < t_gravity 1 1 1 (2 * r_s 1 1 1) 1"
    by blast
  from a b h show ?thesis unfolding e by blast
qed

text \<open>
  C6. With \<open>r_s = 2GM / c\<^sup>2\<close> and \<open>r = radius_ratio * r_s\<close>, the notebook's Schwarzschild
  expression is the normalised formula of the specification: for positive \<open>G\<close>, \<open>M\<close>, \<open>c\<close>
  and every radius ratio above 1, \<open>t_gravity\<close> at proper time \<open>t0\<close> is \<open>t0\<close> times
  \<open>sqrt (1 - 1 / radius_ratio)\<close>, so at unit proper time the two are the same function.
\<close>

theorem schwarzschild_refines_normalised:
  assumes "0 < G" "0 < M" "0 < c" "1 < rr"
  shows "t_gravity t0 G M (rr * r_s G M c) c = t0 * gravitational_dilation_spec rr"
  using t_gravity_norm [OF assms(1-3)] by (simp add: gravitational_dilation_spec_def)

theorem schwarzschild_refines_normalised_witness:
  "(0::real) < 2 \<and> (0::real) < 3 \<and> (0::real) < 5 \<and> (1::real) < 4
   \<and> t_gravity 1 2 3 (4 * r_s 2 3 5) 5 = gravitational_dilation_spec 4
   \<and> r_s 2 3 5 = 12 / 25"
  using schwarzschild_refines_normalised [of 2 3 5 4 1] by (simp add: r_s_def)

text \<open>
  C9. For every finite radius ratio above 1 the gravitational dilation factor is strictly
  below 1: the endpoint 1 is never attained, it is only the limit as the radius ratio
  grows without bound.
\<close>

theorem gravitational_dilation_below_1:
  assumes "0 < G" "0 < M" "0 < c"
  shows "(\<forall>rr>1. t_gravity 1 G M (rr * r_s G M c) c = sqrt (1 - 1 / rr)
             \<and> t_gravity 1 G M (rr * r_s G M c) c < 1)
    \<and> ((\<lambda>rr. t_gravity 1 G M (rr * r_s G M c) c) \<longlongrightarrow> 1) at_top"
proof -
  note n = t_gravity_norm [OF assms, of 1, simplified]
  have "\<forall>rr>1. t_gravity 1 G M (rr * r_s G M c) c = sqrt (1 - 1 / rr)
             \<and> t_gravity 1 G M (rr * r_s G M c) c < 1"
    unfolding n using sqrt_ratio_less_1 by simp
  moreover have "((\<lambda>rr. t_gravity 1 G M (rr * r_s G M c) c) \<longlongrightarrow> 1) at_top"
    unfolding n by (rule sqrt_ratio_at_top)
  ultimately show ?thesis by blast
qed

theorem gravitational_dilation_below_1_witness:
  "(0::real) < 1 \<and> (1::real) < 4/3 \<and> t_gravity 1 1 1 (4/3 * r_s 1 1 1) 1 = 1/2
    \<and> t_gravity 1 1 1 (4/3 * r_s 1 1 1) 1 < 1"
proof -
  have h: "(0::real) < 1" by simp
  have e: "sqrt (1 - 1 / (4/3 :: real)) = 1/2"
    by (rule real_sqrt_unique) (simp_all add: power2_eq_square)
  note T = gravitational_dilation_below_1 [OF h h h]
  have m: "(1::real) < 4/3" by simp
  from T m have "t_gravity 1 1 1 (4/3 * r_s 1 1 1) 1 = sqrt (1 - 1 / (4/3))
             \<and> t_gravity 1 1 1 (4/3 * r_s 1 1 1) 1 < 1" by blast
  with h m show ?thesis unfolding e by blast
qed

section \<open>Particle decay and velocity dilation\<close>

text \<open>
  C3. For a positive proper lifetime \<open>tau\<close> and a velocity fraction in \<open>[0,1)\<close> the
  observed lifetime \<open>t_decay\<close> is \<open>tau\<close> times the Lorentz factor; at velocity 0 it
  is \<open>tau\<close>, and it is never below \<open>tau\<close>.
\<close>

theorem decay_lifetime_scaling:
  assumes "0 < c" "0 < tau" "0 \<le> vf" "vf < 1"
  shows "t_decay tau (vf * c) c = tau * gamma (vf * c) c
    \<and> t_decay tau (vf * c) c = tau * (1 / sqrt (1 - vf\<^sup>2))
    \<and> t_decay tau (0 * c) c = tau
    \<and> tau \<le> t_decay tau (vf * c) c"
proof -
  have g1: "1 \<le> gamma (vf * c) c" using assms gamma_ge_1 by simp
  have "tau * 1 \<le> tau * gamma (vf * c) c"
    using g1 assms(2) by (intro mult_left_mono) simp_all
  then have "tau \<le> t_decay tau (vf * c) c" by (simp add: t_decay_def mult.commute)
  moreover have "t_decay tau (vf * c) c = tau * gamma (vf * c) c"
    by (simp add: t_decay_def)
  moreover have "t_decay tau (vf * c) c = tau * (1 / sqrt (1 - vf\<^sup>2))"
    using assms(1) by (simp add: t_decay_def gamma_norm)
  moreover have "t_decay tau (0 * c) c = tau" by (simp add: t_decay_def gamma_zero)
  ultimately show ?thesis by blast
qed

theorem decay_lifetime_scaling_witness:
  "(0::real) < 2 \<and> (0::real) < 11/5 \<and> (0::real) \<le> 3/5 \<and> (3/5::real) < 1
   \<and> t_decay (11/5) (3/5 * 2) 2 = 11/5 * (5/4)
   \<and> t_decay (11/5) (0 * 2) 2 = 11/5
   \<and> 11/5 \<le> t_decay (11/5) (3/5 * 2) 2"
proof -
  have h: "(0::real) < 2" "(0::real) < 11/5" "(0::real) \<le> 3/5" "(3/5::real) < 1" by simp_all
  have e: "sqrt (1 - (3/5 :: real)\<^sup>2) = 4/5"
    by (rule real_sqrt_unique) (simp_all add: power2_eq_square)
  have g: "1 / (4/5 :: real) = 5/4" by simp
  note T = decay_lifetime_scaling [OF h, unfolded e g]
  with h show ?thesis by blast
qed

text \<open>
  C10. The observed lifetime \<open>t_decay = gamma * tau\<close> is the dilated time
  \<open>t = gamma * t0\<close> with the proper-time symbol renamed: as functions of the proper
  time, the velocity and the speed of light the two expressions coincide.
\<close>

theorem t_decay_is_t: "t_decay x v c = t x v c"
  by (simp add: t_decay_def t_def)

section \<open>The sweep generator\<close>

lemma sweep_point_bounds:
  assumes "start < stop" "i < n"
  shows "start \<le> start + real i * ((stop - start) / real n)"
    and "start + real i * ((stop - start) / real n) < stop"
proof -
  have n: "0 < real n" using assms by simp
  have d: "0 < (stop - start) / real n" using assms n by simp
  have "0 \<le> real i * ((stop - start) / real n)"
    using d by (intro mult_nonneg_nonneg) simp_all
  then show "start \<le> start + real i * ((stop - start) / real n)"
    by simp
  have "real i * ((stop - start) / real n) < real n * ((stop - start) / real n)"
    using assms d by (intro mult_strict_right_mono) simp_all
  also have "\<dots> = stop - start" using n by simp
  finally show "start + real i * ((stop - start) / real n) < stop" by simp
qed

lemma sorted_wrt_map_upt:
  fixes f :: "nat \<Rightarrow> real"
  assumes "\<And>i j. i < j \<Longrightarrow> j < n \<Longrightarrow> f i < f j"
  shows "sorted_wrt (<) (map f [0 ..< n])"
  using assms by (simp add: sorted_wrt_iff_nth_less)

text \<open>
  C7. For every \<open>(start, stop, count)\<close>: when \<open>count < 1\<close> or \<open>start \<ge> stop\<close> the
  sweep fails with \<open>InvalidRangeError\<close>; otherwise it returns an ordered sequence of
  exactly \<open>count\<close> evenly spaced values, each in \<open>[start, stop)\<close>.
\<close>

theorem parameter_sweep_contract:
  "(count < 1 \<or> start \<ge> stop \<longrightarrow> parameter_sweep start stop count = Inl InvalidRangeError) \<and>
   (\<not> (count < 1 \<or> start \<ge> stop) \<longrightarrow>
      (\<exists>xs. parameter_sweep start stop count = Inr xs
         \<and> int (length xs) = count
         \<and> (\<forall>x \<in> set xs. start \<le> x \<and> x < stop)
         \<and> sorted_wrt (<) xs
         \<and> (\<forall>i. Suc i < length xs \<longrightarrow>
               xs ! Suc i - xs ! i = (stop - start) / real_of_int count)))"
proof (intro conjI impI)
  assume "count < 1 \<or> start \<ge> stop"
  then show "parameter_sweep start stop count = Inl InvalidRangeError"
    by (simp add: parameter_sweep_def)
next
  assume ok: "\<not> (count < 1 \<or> start \<ge> stop)"
  define n where "n = nat count"
  define d where "d = (stop - start) / real n"
  define xs where "xs = map (\<lambda>i. start + real i * d) [0 ..< n]"
  have cnt: "real_of_int count = real n" "int n = count" "0 < n" and lt: "start < stop"
    using ok by (simp_all add: n_def)
  have dpos: "0 < d" using cnt lt by (simp add: d_def)
  have "real_of_int count = real (nat count)" using ok by simp
  then have run: "parameter_sweep start stop count = Inr xs"
    using ok unfolding parameter_sweep_def xs_def d_def n_def by simp
  have len: "int (length xs) = count" using cnt by (simp add: xs_def)
  have rng: "\<forall>x \<in> set xs. start \<le> x \<and> x < stop"
  proof
    fix x assume "x \<in> set xs"
    then obtain i where "i < n" "x = start + real i * ((stop - start) / real n)"
      by (auto simp add: xs_def d_def)
    then show "start \<le> x \<and> x < stop"
      using sweep_point_bounds [OF lt, of i n] by simp
  qed
  have srt: "sorted_wrt (<) xs"
    unfolding xs_def using dpos by (intro sorted_wrt_map_upt) simp
  have stp: "\<forall>i. Suc i < length xs \<longrightarrow> xs ! Suc i - xs ! i = (stop - start) / real_of_int count"
  proof (intro allI impI)
    fix i assume "Suc i < length xs"
    then have "Suc i < n" "i < n" by (simp_all add: xs_def)
    then have "xs ! Suc i - xs ! i = d"
      by (simp add: xs_def algebra_simps)
    then show "xs ! Suc i - xs ! i = (stop - start) / real_of_int count"
      by (simp add: d_def cnt)
  qed
  show "\<exists>xs. parameter_sweep start stop count = Inr xs
         \<and> int (length xs) = count
         \<and> (\<forall>x \<in> set xs. start \<le> x \<and> x < stop)
         \<and> sorted_wrt (<) xs
         \<and> (\<forall>i. Suc i < length xs \<longrightarrow>
               xs ! Suc i - xs ! i = (stop - start) / real_of_int count)"
    using run len rng srt stp by blast
qed


theorem parameter_sweep_contract_witness:
  "(1::int) \<le> 4 \<and> (0::real) < 1
   \<and> (\<exists>xs. parameter_sweep 0 1 4 = Inr xs \<and> int (length xs) = 4 \<and> sorted_wrt (<) xs
         \<and> xs = [0, 1/4, 1/2, 3/4])
   \<and> parameter_sweep 0 1 0 = Inl InvalidRangeError
   \<and> parameter_sweep 1 1 4 = Inl InvalidRangeError"
proof -
  have ok: "\<not> ((4::int) < 1 \<or> (0::real) \<ge> 1)" by simp
  have v: "parameter_sweep 0 1 4 = Inr [0, 1/4, 1/2, 3/4]"
    by (simp add: parameter_sweep_def upt_rec)
  from parameter_sweep_contract [where count = 4 and start = 0 and stop = 1] ok
  obtain xs where xs: "parameter_sweep 0 1 4 = Inr xs" "int (length xs) = 4" "sorted_wrt (<) xs"
    by blast
  from xs(1) v have "xs = [0, 1/4, 1/2, 3/4]" by simp
  with xs have a: "\<exists>xs. parameter_sweep 0 1 4 = Inr xs \<and> int (length xs) = 4 \<and> sorted_wrt (<) xs
         \<and> xs = [0, 1/4, 1/2, 3/4]" by blast
  have "(0::int) < 1" by simp
  with parameter_sweep_contract [where count = 0 and start = 0 and stop = 1]
  have b: "parameter_sweep 0 1 0 = Inl InvalidRangeError" by blast
  have "(1::real) \<ge> 1" by simp
  with parameter_sweep_contract [where count = 4 and start = 1 and stop = 1]
  have c: "parameter_sweep 1 1 4 = Inl InvalidRangeError" by blast
  from a b c show ?thesis by simp
qed

section \<open>Evaluation inside and outside the domain\<close>

lemma gamma_eval_inside:
  assumes "0 < c" "0 \<le> vf" "vf < 1"
  shows "gamma_eval (vf * c) c = Inr (Finite (complex_of_real (gamma (vf * c) c)))"
proof -
  have v: "0 \<le> vf * c" "vf * c < c" using assms by simp_all
  have "(vf * c)\<^sup>2 / c\<^sup>2 < 1" using ratio_less_1 [OF assms(1) v] .
  then have nz: "1 - (vf * c)\<^sup>2 / c\<^sup>2 \<noteq> 0" by linarith
  show ?thesis
    using nz gamma_cx_real [OF assms(1) v] by (simp add: gamma_eval_def gamma_cx_def)
qed

lemma gamma_eval_beyond:
  assumes "0 < c" "1 < vf"
  shows "gamma_eval (vf * c) c = Inr (Finite (Complex 0 (- (1 / sqrt (vf\<^sup>2 - 1)))))"
proof -
  have v: "c < vf * c" using assms by simp
  have r: "(vf * c)\<^sup>2 / c\<^sup>2 = vf\<^sup>2" using assms by (simp add: power_mult_distrib)
  have "1 < (vf * c)\<^sup>2 / c\<^sup>2" using ratio_gr_1 [OF assms(1) v] .
  then have nz: "1 - (vf * c)\<^sup>2 / c\<^sup>2 \<noteq> 0" by linarith
  have "gamma_cx (vf * c) c = Complex 0 (- (1 / sqrt (vf\<^sup>2 - 1)))"
    using gamma_cx_beyond [OF assms(1) v] unfolding r .
  then show ?thesis using nz by (simp add: gamma_eval_def gamma_cx_def)
qed

lemma gamma_eval_at_c: "0 < c \<Longrightarrow> gamma_eval c c = Inr ComplexInfinity"
  by (simp add: gamma_eval_def)

lemma t_gravity_eval_outside:
  assumes "0 < G" "0 < M" "0 < c" "1 < rr"
  shows "t_gravity_eval t0 G M (rr * r_s G M c) c
         = Inr (Finite (complex_of_real (t_gravity t0 G M (rr * r_s G M c) c)))"
proof -
  have d: "rr * r_s G M c * c\<^sup>2 = rr * (2 * G * M)" using assms by (simp add: r_s_def)
  have nz: "rr * (2 * G * M) \<noteq> 0" using assms by simp
  have q: "(2 * G * M) / (rr * (2 * G * M)) = 1 / rr" using assms by simp
  have "0 \<le> 1 - 1 / rr" using assms by simp
  then have "csqrt (complex_of_real (1 - 1 / rr)) = complex_of_real (sqrt (1 - 1 / rr))"
    by (simp only: of_real_sqrt)
  then show ?thesis
    unfolding t_gravity_eval_def t_gravity_def d q using nz by simp
qed

lemma t_gravity_eval_inside_horizon:
  assumes "0 < G" "0 < M" "0 < c" "0 < rr" "rr \<le> 1"
  shows "t_gravity_eval t0 G M (rr * r_s G M c) c
         = Inr (Finite (Complex 0 (t0 * sqrt (1 / rr - 1))))"
proof -
  have d: "rr * r_s G M c * c\<^sup>2 = rr * (2 * G * M)" using assms by (simp add: r_s_def)
  have nz: "rr * (2 * G * M) \<noteq> 0" using assms by simp
  have q: "(2 * G * M) / (rr * (2 * G * M)) = 1 / rr" using assms by simp
  have neg: "1 - 1 / rr \<le> 0" using assms by simp
  have "csqrt (complex_of_real (1 - 1 / rr)) = \<i> * complex_of_real (sqrt \<bar>1 - 1 / rr\<bar>)"
    using neg by (subst csqrt_of_real_nonpos) simp_all
  also have "\<bar>1 - 1 / rr\<bar> = 1 / rr - 1" using neg by simp
  finally have "complex_of_real t0 * csqrt (complex_of_real (1 - 1 / rr))
                = Complex 0 (t0 * sqrt (1 / rr - 1))"
    by (simp add: complex_eq_iff)
  then show ?thesis
    unfolding t_gravity_eval_def d q using nz by simp
qed

lemma t_decay_eval_finite:
  "gamma_eval v c = Inr (Finite g) \<Longrightarrow> t_decay_eval tau v c = Inr (Finite (g * complex_of_real tau))"
  by (simp add: t_decay_eval_def)

lemma evaluation_returns:
  "(\<exists>y. gamma_eval v c = Inr y) \<and> (\<exists>y. t_decay_eval tau v c = Inr y)
   \<and> (\<exists>y. t_gravity_eval t0 G M r c = Inr y)"
  by (simp add: gamma_eval_def t_decay_eval_def t_gravity_eval_def split: sym_value.split)

text \<open>
  C8. Each formula returns a value on every input of its domain, the real number of the
  closed form, and raises no error there. Outside the domain it does not fail with a
  \<open>DomainError\<close>: the expressions have no error path and every evaluation returns a
  value. Above the speed of light the Lorentz factor is the imaginary number
  \<open>- \<i> / sqrt (vf\<^sup>2 - 1)\<close> and the decay lifetime \<open>tau\<close> times it, at the speed of light
  both are the complex infinity, and at a radius ratio in \<open>(0,1]\<close> the gravitational
  expression is \<open>t0 * \<i> * sqrt (1 / rr - 1)\<close>, which is 0 at the horizon.
\<close>

theorem evaluation_never_fails:
  assumes "0 < c" "0 < G" "0 < M" "0 < t0" "0 < tau"
  shows "(0 \<le> vf \<and> vf < 1 \<longrightarrow>
            gamma_eval (vf * c) c = Inr (Finite (complex_of_real (gamma (vf * c) c)))
          \<and> t_decay_eval tau (vf * c) c
              = Inr (Finite (complex_of_real (t_decay tau (vf * c) c))))
    \<and> (1 < rr \<longrightarrow>
            t_gravity_eval t0 G M (rr * r_s G M c) c
              = Inr (Finite (complex_of_real (t_gravity t0 G M (rr * r_s G M c) c))))
    \<and> (1 < vf \<longrightarrow>
            gamma_eval (vf * c) c = Inr (Finite (Complex 0 (- (1 / sqrt (vf\<^sup>2 - 1)))))
          \<and> t_decay_eval tau (vf * c) c
              = Inr (Finite (Complex 0 (- (tau / sqrt (vf\<^sup>2 - 1))))))
    \<and> gamma_eval c c = Inr ComplexInfinity
    \<and> t_decay_eval tau c c = Inr ComplexInfinity
    \<and> (0 < rr \<and> rr \<le> 1 \<longrightarrow>
            t_gravity_eval t0 G M (rr * r_s G M c) c
              = Inr (Finite (Complex 0 (t0 * sqrt (1 / rr - 1)))))
    \<and> (\<forall>v r. (\<exists>y. gamma_eval v c = Inr y) \<and> (\<exists>y. t_decay_eval tau v c = Inr y)
              \<and> (\<exists>y. t_gravity_eval t0 G M r c = Inr y))"
proof -
  have a: "0 \<le> vf \<and> vf < 1 \<longrightarrow>
            gamma_eval (vf * c) c = Inr (Finite (complex_of_real (gamma (vf * c) c)))
          \<and> t_decay_eval tau (vf * c) c
              = Inr (Finite (complex_of_real (t_decay tau (vf * c) c)))"
  proof (intro impI)
    assume d: "0 \<le> vf \<and> vf < 1"
    then have g: "gamma_eval (vf * c) c = Inr (Finite (complex_of_real (gamma (vf * c) c)))"
      using gamma_eval_inside [OF assms(1)] by blast
    from t_decay_eval_finite [OF g, of tau]
    have "t_decay_eval tau (vf * c) c
              = Inr (Finite (complex_of_real (t_decay tau (vf * c) c)))"
      by (simp add: t_decay_def)
    with g show "gamma_eval (vf * c) c = Inr (Finite (complex_of_real (gamma (vf * c) c)))
          \<and> t_decay_eval tau (vf * c) c
              = Inr (Finite (complex_of_real (t_decay tau (vf * c) c)))" by blast
  qed
  have b: "1 < rr \<longrightarrow>
            t_gravity_eval t0 G M (rr * r_s G M c) c
              = Inr (Finite (complex_of_real (t_gravity t0 G M (rr * r_s G M c) c)))"
    using t_gravity_eval_outside [OF assms(2,3,1)] by blast
  have c: "1 < vf \<longrightarrow>
            gamma_eval (vf * c) c = Inr (Finite (Complex 0 (- (1 / sqrt (vf\<^sup>2 - 1)))))
          \<and> t_decay_eval tau (vf * c) c
              = Inr (Finite (Complex 0 (- (tau / sqrt (vf\<^sup>2 - 1)))))"
  proof (intro impI)
    assume d: "1 < vf"
    have g: "gamma_eval (vf * c) c = Inr (Finite (Complex 0 (- (1 / sqrt (vf\<^sup>2 - 1)))))"
      using gamma_eval_beyond [OF assms(1) d] .
    from t_decay_eval_finite [OF g, of tau]
    have "t_decay_eval tau (vf * c) c
              = Inr (Finite (Complex 0 (- (tau / sqrt (vf\<^sup>2 - 1)))))"
      by (simp add: complex_eq_iff)
    with g show "gamma_eval (vf * c) c = Inr (Finite (Complex 0 (- (1 / sqrt (vf\<^sup>2 - 1)))))
          \<and> t_decay_eval tau (vf * c) c
              = Inr (Finite (Complex 0 (- (tau / sqrt (vf\<^sup>2 - 1)))))" by blast
  qed
  have d: "gamma_eval c c = Inr ComplexInfinity"
    using assms(1) by (rule gamma_eval_at_c)
  then have e: "t_decay_eval tau c c = Inr ComplexInfinity"
    by (simp add: t_decay_eval_def)
  have f: "0 < rr \<and> rr \<le> 1 \<longrightarrow>
            t_gravity_eval t0 G M (rr * r_s G M c) c
              = Inr (Finite (Complex 0 (t0 * sqrt (1 / rr - 1))))"
    using t_gravity_eval_inside_horizon [OF assms(2,3,1)] by blast
  have g: "\<forall>v r. (\<exists>y. gamma_eval v c = Inr y) \<and> (\<exists>y. t_decay_eval tau v c = Inr y)
              \<and> (\<exists>y. t_gravity_eval t0 G M r c = Inr y)"
    using evaluation_returns by blast
  from a b c d e f g show ?thesis by blast
qed

theorem evaluation_never_fails_witness:
  "(0::real) < 1 \<and> (0::real) < 2
   \<and> gamma_eval (3/5 * 1) 1 = Inr (Finite (complex_of_real (gamma (3/5 * 1) 1)))
   \<and> t_gravity_eval 1 1 1 (4/3 * r_s 1 1 1) 1
       = Inr (Finite (complex_of_real (t_gravity 1 1 1 (4/3 * r_s 1 1 1) 1)))
   \<and> gamma_eval (5/4 * 1) 1 = Inr (Finite (Complex 0 (- (4/3))))
   \<and> t_decay_eval 2 (5/4 * 1) 1 = Inr (Finite (Complex 0 (- (8/3))))
   \<and> gamma_eval 1 1 = Inr ComplexInfinity
   \<and> t_gravity_eval 1 1 1 (1/2 * r_s 1 1 1) 1 = Inr (Finite (Complex 0 1))"
proof -
  have h: "(0::real) < 1" "(0::real) < 2" by simp_all
  have e: "sqrt ((5/4 :: real)\<^sup>2 - 1) = 3/4"
    by (rule real_sqrt_unique) (simp_all add: power2_eq_square)
  have g: "- (1 / (3/4 :: real)) = - (4/3)" "- (2 / (3/4 :: real)) = - (8/3)" by simp_all
  have s: "(1::real) * sqrt (1 / (1/2) - 1) = 1" by simp
  note A = evaluation_never_fails [OF h(1) h(1) h(1) h(1) h(2), of "3/5" "4/3"]
  note B = evaluation_never_fails [OF h(1) h(1) h(1) h(1) h(2), of "5/4" "1/2", unfolded e g s]
  have dA: "(0::real) \<le> 3/5 \<and> (3/5::real) < 1" "(1::real) < 4/3" by simp_all
  have dB: "(1::real) < 5/4" "(0::real) < 1/2 \<and> (1/2::real) \<le> 1" by simp_all
  from A dA have a: "gamma_eval (3/5 * 1) 1 = Inr (Finite (complex_of_real (gamma (3/5 * 1) 1)))
   \<and> t_gravity_eval 1 1 1 (4/3 * r_s 1 1 1) 1
       = Inr (Finite (complex_of_real (t_gravity 1 1 1 (4/3 * r_s 1 1 1) 1)))" by blast
  from B dB have b: "gamma_eval (5/4 * 1) 1 = Inr (Finite (Complex 0 (- (4/3))))
   \<and> t_decay_eval 2 (5/4 * 1) 1 = Inr (Finite (Complex 0 (- (8/3))))
   \<and> gamma_eval 1 1 = Inr ComplexInfinity
   \<and> t_gravity_eval 1 1 1 (1/2 * r_s 1 1 1) 1 = Inr (Finite (Complex 0 1))" by blast
  from a b h show ?thesis by blast
qed

text \<open>
  The statement that an input outside the domain fails with \<open>DomainError\<close> is false of
  the expressions: at \<open>v = 5/4\<close>, \<open>c = 1\<close> the value of \<open>gamma\<close> is \<open>- 4/3 \<i>\<close>, and at
  \<open>r = r_s\<close> (radius ratio 1, all other symbols 1) the value of \<open>t_gravity\<close> is 0.
\<close>

theorem evaluators_domain_error_counterexample:
  "gamma_eval (5/4) 1 = Inr (Finite (Complex 0 (- (4/3))))
   \<and> gamma_eval (5/4) 1 \<noteq> Inl DomainError
   \<and> t_gravity_eval 1 1 1 (r_s 1 1 1) 1 = Inr (Finite 0)
   \<and> t_gravity_eval 1 1 1 (r_s 1 1 1) 1 \<noteq> Inl DomainError"
proof -
  have e: "sqrt ((5/4 :: real)\<^sup>2 / 1\<^sup>2 - 1) = 3/4"
    by (rule real_sqrt_unique) (simp_all add: power2_eq_square)
  have "gamma_cx (5/4) 1 = Complex 0 (- (1 / (3/4)))"
    using gamma_cx_beyond [of 1 "5/4"] unfolding e by simp
  then have c: "gamma_cx (5/4) 1 = Complex 0 (- (4/3))" by simp
  have nz: "1 - (5/4 :: real)\<^sup>2 / 1\<^sup>2 \<noteq> 0" by (simp add: power2_eq_square)
  have a: "gamma_eval (5/4) 1 = Inr (Finite (Complex 0 (- (4/3))))"
    using nz c unfolding gamma_eval_def gamma_cx_def by simp
  have b: "t_gravity_eval 1 1 1 (r_s 1 1 1) 1 = Inr (Finite 0)"
    by (simp add: t_gravity_eval_def r_s_def)
  from a b show ?thesis by simp
qed

end
